theory Spec2Isabelle
  imports Complex_Main "HOL-Library.Sublist"
begin

section \<open>The host: document tree, window and timers\<close>

text \<open>
  The portfolio scripts (\<^verbatim>\<open>config.js\<close>, \<^verbatim>\<open>utils.js\<close>, \<^verbatim>\<open>sections.js\<close>, \<^verbatim>\<open>main.js\<close>) run
  against a browser. The browser state they read and write is made explicit here: the
  document is a tree of elements, an element is identified by its path from the root
  (the child indices), and every function of the scripts takes the world and returns
  the new one. The scripts only ever add children at the end of a child list or replace
  the whole content of an element, so the path of an element that stays in the document
  never changes.
\<close>

type_synonym path = "nat list"

text \<open>
  The closures that the scripts register as event listeners, one constructor per arrow
  function of the source, with the variables it captures.
\<close>

datatype handler =
    ProfileClick path             \<comment> \<open>sections.js 61: \<^verbatim>\<open>() => this.handleProfileClick()\<close>, with \<^verbatim>\<open>this.profilePicture\<close>\<close>
  | CardHover path bool           \<comment> \<open>sections.js 129, 133, 213, 217: \<^verbatim>\<open>() => this.handleCardHover(card, b)\<close>\<close>
  | ProjectClick nat              \<comment> \<open>sections.js 139: \<^verbatim>\<open>(e) => this.handleProjectClick(e, index)\<close>\<close>
  | SkillClick path               \<comment> \<open>sections.js 234, 288: \<^verbatim>\<open>() => this.handleSkillClick(tag)\<close>\<close>
  | InternalLinkClick path        \<comment> \<open>main.js 97: smooth scrolling of an in-page anchor\<close>

text \<open>The closures registered on the window, the document and the media query list.\<close>

datatype global_handler =
    ResizeDebounced               \<comment> \<open>main.js 73: the debounced resize closure\<close>
  | ScrollThrottled               \<comment> \<open>main.js 78: the throttled scroll closure\<close>
  | MotionPreferenceChange        \<comment> \<open>main.js 84\<close>
  | ResolveReady                  \<comment> \<open>main.js 39: \<^verbatim>\<open>resolve\<close> of the promise of \<^verbatim>\<open>waitForDOM\<close>\<close>

record node_data =
  tag :: string
  elem_id :: "string option"
  classes :: "string list"
  href :: "string option"
  textContent :: string
  style_transform :: string
  style_opacity :: string
  style_transition :: string
  offsetTop :: int
  listeners :: "(string \<times> handler) list"

datatype element = Element (data: node_data) (children: "element list")

fun node_at :: "element \<Rightarrow> path \<Rightarrow> element option" where
  "node_at e [] = Some e"
| "node_at (Element d cs) (i # p) = (if i < length cs then node_at (cs ! i) p else None)"

fun modify :: "path \<Rightarrow> (element \<Rightarrow> element) \<Rightarrow> element \<Rightarrow> element" where
  "modify [] f e = f e"
| "modify (i # p) f (Element d cs) =
     (if i < length cs then Element d (cs[i := modify p f (cs ! i)]) else Element d cs)"

text \<open>All element paths of a tree in document order (pre-order).\<close>

fun paths :: "element \<Rightarrow> path list"
  and paths_from :: "nat \<Rightarrow> element list \<Rightarrow> path list" where
  "paths (Element d cs) = [] # paths_from 0 cs"
| "paths_from i [] = []"
| "paths_from i (c # cs) = map ((#) i) (paths c) @ paths_from (Suc i) cs"

definition data_at :: "element \<Rightarrow> path \<Rightarrow> node_data option" where
  "data_at rt p = map_option data (node_at rt p)"

definition update_data :: "path \<Rightarrow> (node_data \<Rightarrow> node_data) \<Rightarrow> element \<Rightarrow> element" where
  "update_data p f rt = modify p (\<lambda>e. Element (f (data e)) (children e)) rt"

text \<open>
  Assigning \<^verbatim>\<open>el.textContent = s\<close> replaces the content of the element: its children
  are removed and its text is \<open>s\<close>.
\<close>

definition set_textContent :: "path \<Rightarrow> string \<Rightarrow> element \<Rightarrow> element" where
  "set_textContent p s rt = modify p (\<lambda>e. Element ((data e)\<lparr>textContent := s\<rparr>) []) rt"

definition appendChild :: "path \<Rightarrow> element \<Rightarrow> element \<Rightarrow> element" where
  "appendChild p c rt = modify p (\<lambda>e. Element (data e) (children e @ [c])) rt"

definition addEventListener :: "path \<Rightarrow> string \<Rightarrow> handler \<Rightarrow> element \<Rightarrow> element" where
  "addEventListener p ev h rt = update_data p (\<lambda>d. d\<lparr>listeners := listeners d @ [(ev, h)]\<rparr>) rt"

subsection \<open>Selectors\<close>

text \<open>
  The selectors that occur in the scripts: \<^verbatim>\<open>#id\<close>, \<^verbatim>\<open>.class\<close>, a tag name,
  \<^verbatim>\<open>.class tag\<close> (descendant) and \<^verbatim>\<open>tag[href^="prefix"]\<close>.
\<close>

datatype selector =
    IdSel string
  | ClassSel string
  | TagSel string
  | ClassTagSel string string
  | TagHrefPrefixSel string string

fun selector_text :: "selector \<Rightarrow> string" where
  "selector_text (IdSel s) = ''#'' @ s"
| "selector_text (ClassSel c) = ''.'' @ c"
| "selector_text (TagSel t) = t"
| "selector_text (ClassTagSel c t) = ''.'' @ c @ '' '' @ t"
| "selector_text (TagHrefPrefixSel t s) = t @ ''[href^=\"'' @ s @ ''\"]''"

definition has_class :: "element \<Rightarrow> path \<Rightarrow> string \<Rightarrow> bool" where
  "has_class rt p c = (case data_at rt p of None \<Rightarrow> False | Some d \<Rightarrow> c \<in> set (classes d))"

definition has_tag :: "element \<Rightarrow> path \<Rightarrow> string \<Rightarrow> bool" where
  "has_tag rt p t = (case data_at rt p of None \<Rightarrow> False | Some d \<Rightarrow> tag d = t)"

fun node_matches :: "element \<Rightarrow> selector \<Rightarrow> path \<Rightarrow> bool" where
  "node_matches rt (IdSel s) p =
     (case data_at rt p of None \<Rightarrow> False | Some d \<Rightarrow> elem_id d = Some s)"
| "node_matches rt (ClassSel c) p = has_class rt p c"
| "node_matches rt (TagSel t) p = has_tag rt p t"
| "node_matches rt (ClassTagSel c t) p =
     (has_tag rt p t \<and> list_ex (\<lambda>a. has_class rt a c) (butlast (prefixes p)))"
| "node_matches rt (TagHrefPrefixSel t s) p =
     (case data_at rt p of None \<Rightarrow> False
      | Some d \<Rightarrow> tag d = t \<and> (case href d of None \<Rightarrow> False | Some h \<Rightarrow> prefix s h))"

subsection \<open>Configuration (config.js)\<close>

record animations_config =
  anim_enabled :: bool
  anim_duration :: int
  anim_easing :: string

record section_config =
  sec_enabled :: bool
  animationDelay :: int

record portfolio_config =
  animations :: animations_config
  scroll_smooth :: bool
  scroll_offset :: int
  sections :: "string \<rightharpoonup> section_config"

definition PortfolioConfig_new :: portfolio_config where
  "PortfolioConfig_new =
     \<lparr>animations = \<lparr>anim_enabled = True, anim_duration = 300, anim_easing = ''ease-in-out''\<rparr>,
      scroll_smooth = True,
      scroll_offset = 80,
      sections = [''hero'' \<mapsto> \<lparr>sec_enabled = True, animationDelay = 100\<rparr>,
                  ''projects'' \<mapsto> \<lparr>sec_enabled = True, animationDelay = 200\<rparr>,
                  ''skills'' \<mapsto> \<lparr>sec_enabled = True, animationDelay = 300\<rparr>]\<rparr>"

text \<open>\<^verbatim>\<open>this.sections[sectionName] || {}\<close>: \<open>None\<close> stands for the empty object.\<close>

definition getSectionConfig :: "portfolio_config \<Rightarrow> string \<Rightarrow> section_config option" where
  "getSectionConfig c sectionName = sections c sectionName"

subsection \<open>The world\<close>

datatype ready_state = Loading | Interactive | Complete

datatype console_entry = Log string | Warn string | Error string

datatype observer_callback =
    SectionFadeIn int             \<comment> \<open>sections.js 43: \<^verbatim>\<open>fadeIn(element, this.config.animationDelay || 0)\<close>\<close>
  | ProfilePulse                  \<comment> \<open>sections.js 72\<close>
  | CardFadeIn "path list"        \<comment> \<open>sections.js 150, capturing \<^verbatim>\<open>this.projectCards\<close>\<close>
  | TagFadeIn "path list"         \<comment> \<open>sections.js 244, capturing \<^verbatim>\<open>this.skillTags\<close>\<close>

record observer =
  callback :: observer_callback
  observed :: "path list"

datatype timer_action =
    FadeInStart path              \<comment> \<open>utils.js 77\<close>
  | PulseUp path                  \<comment> \<open>sections.js 73\<close>
  | SetTransform path string      \<comment> \<open>sections.js 75, 89, 261\<close>

text \<open>
  \<^verbatim>\<open>setTimeout\<close> and \<^verbatim>\<open>clearTimeout\<close> over a virtual clock in milliseconds. A pending
  timer is its handle, the time it is due and the closure to run. A negative delay
  counts as 0, as in the browser.
\<close>

record 'a timer_host =
  clock :: nat
  next_handle :: nat
  pending :: "(nat \<times> nat \<times> 'a) list"

definition setTimeout :: "'a \<Rightarrow> int \<Rightarrow> 'a timer_host \<Rightarrow> nat \<times> 'a timer_host" where
  "setTimeout f delay t =
     (next_handle t,
      t\<lparr>next_handle := Suc (next_handle t),
        pending := pending t @ [(next_handle t, clock t + nat delay, f)]\<rparr>)"


record world =
  doc :: element
  ident_ok :: "string \<Rightarrow> bool"
  parse_html :: "string \<Rightarrow> element list"
  readyState :: ready_state
  reduced_motion :: bool
  pageYOffset :: real
  scrollTop :: real
  portfolioConfig :: portfolio_config
  console :: "console_entry list"
  window_listeners :: "(string \<times> global_handler) list"
  document_listeners :: "(string \<times> global_handler) list"
  media_listeners :: "(string \<times> global_handler) list"
  scrollTo_calls :: "int list"
  observers :: "observer list"
  timers :: "timer_action timer_host"

text \<open>
  \<^verbatim>\<open>window.matchMedia('(prefers-reduced-motion: reduce)').matches\<close> is the field
  \<open>reduced_motion\<close>. \<open>ident_ok\<close> is the selector parser of the host: whether
  \<^verbatim>\<open>#\<close> followed by the given string is a well-formed selector. \<open>parse_html\<close> is the
  HTML parser of the host: the elements that assigning the markup to \<^verbatim>\<open>innerHTML\<close>
  of an element gives it as children.
\<close>

definition areAnimationsEnabled :: "world \<Rightarrow> bool" where
  "areAnimationsEnabled w = (anim_enabled (animations (portfolioConfig w)) \<and> \<not> reduced_motion w)"

text \<open>
  \<^verbatim>\<open>updateAnimationConfig(newConfig)\<close> merges a partial record into \<open>animations\<close>; an
  omitted field is \<open>None\<close>.
\<close>

record animations_patch =
  patch_enabled :: "bool option"
  patch_duration :: "int option"
  patch_easing :: "string option"

definition updateAnimationConfig :: "animations_patch \<Rightarrow> world \<Rightarrow> world" where
  "updateAnimationConfig newConfig w =
     (let a = animations (portfolioConfig w);
          a' = \<lparr>anim_enabled = (case patch_enabled newConfig of None \<Rightarrow> anim_enabled a | Some b \<Rightarrow> b),
                anim_duration = (case patch_duration newConfig of None \<Rightarrow> anim_duration a | Some n \<Rightarrow> n),
                anim_easing = (case patch_easing newConfig of None \<Rightarrow> anim_easing a | Some s \<Rightarrow> s)\<rparr>
      in w\<lparr>portfolioConfig := (portfolioConfig w)\<lparr>animations := a'\<rparr>\<rparr>)"

section \<open>Utilities (utils.js)\<close>

datatype dom_exception = SyntaxError

definition selector_ok :: "world \<Rightarrow> selector \<Rightarrow> bool" where
  "selector_ok w sel = (case sel of IdSel s \<Rightarrow> ident_ok w s | _ \<Rightarrow> True)"

text \<open>\<^verbatim>\<open>document.querySelector\<close> and \<^verbatim>\<open>document.querySelectorAll\<close> throw on a malformed selector.\<close>

definition document_querySelector :: "world \<Rightarrow> selector \<Rightarrow> dom_exception + path option" where
  "document_querySelector w sel =
     (if selector_ok w sel then Inr (find (node_matches (doc w) sel) (paths (doc w)))
      else Inl SyntaxError)"

definition document_querySelectorAll :: "world \<Rightarrow> selector \<Rightarrow> dom_exception + path list" where
  "document_querySelectorAll w sel =
     (if selector_ok w sel then Inr (filter (node_matches (doc w) sel) (paths (doc w)))
      else Inl SyntaxError)"

text \<open>\<^verbatim>\<open>el.querySelector\<close>: the first descendant of the element that matches.\<close>

definition element_querySelector :: "element \<Rightarrow> path \<Rightarrow> selector \<Rightarrow> path option" where
  "element_querySelector rt p sel =
     find (node_matches rt sel) (filter (strict_prefix p) (paths rt))"

definition DOMUtils_querySelector :: "selector \<Rightarrow> world \<Rightarrow> path option \<times> world" where
  "DOMUtils_querySelector sel w =
     (case document_querySelector w sel of
        Inr r \<Rightarrow> (r, w)
      | Inl err \<Rightarrow>
          (None, w\<lparr>console := console w @ [Warn (''Erro ao selecionar elemento: '' @ selector_text sel)]\<rparr>))"

definition DOMUtils_querySelectorAll :: "selector \<Rightarrow> world \<Rightarrow> path list \<times> world" where
  "DOMUtils_querySelectorAll sel w =
     (case document_querySelectorAll w sel of
        Inr r \<Rightarrow> (r, w)
      | Inl err \<Rightarrow>
          ([], w\<lparr>console := console w @ [Warn (''Erro ao selecionar elementos: '' @ selector_text sel)]\<rparr>))"

definition DOMUtils_addClass :: "path option \<Rightarrow> string \<Rightarrow> world \<Rightarrow> world" where
  "DOMUtils_addClass el className w =
     (case el of
        None \<Rightarrow> w
      | Some p \<Rightarrow>
          if className \<noteq> [] then
            w\<lparr>doc := update_data p
                 (\<lambda>d. if className \<in> set (classes d) then d
                      else d\<lparr>classes := classes d @ [className]\<rparr>) (doc w)\<rparr>
          else w)"

definition DOMUtils_removeClass :: "path option \<Rightarrow> string \<Rightarrow> world \<Rightarrow> world" where
  "DOMUtils_removeClass el className w =
     (case el of
        None \<Rightarrow> w
      | Some p \<Rightarrow>
          if className \<noteq> [] then
            w\<lparr>doc := update_data p
                 (\<lambda>d. d\<lparr>classes := filter (\<lambda>c. c \<noteq> className) (classes d)\<rparr>) (doc w)\<rparr>
          else w)"

definition DOMUtils_hasClass :: "path option \<Rightarrow> string \<Rightarrow> world \<Rightarrow> bool" where
  "DOMUtils_hasClass el className w =
     (case el of None \<Rightarrow> False | Some p \<Rightarrow> className \<noteq> [] \<and> has_class (doc w) p className)"

definition fadeIn :: "path option \<Rightarrow> int \<Rightarrow> world \<Rightarrow> world" where
  "fadeIn el delay w =
     (case el of
        None \<Rightarrow> w
      | Some p \<Rightarrow> w\<lparr>timers := snd (setTimeout (FadeInStart p) delay (timers w))\<rparr>)"

definition observeElements :: "selector \<Rightarrow> observer_callback \<Rightarrow> world \<Rightarrow> world" where
  "observeElements sel cb w =
     (let (elements, w1) = DOMUtils_querySelectorAll sel w
      in if elements = [] then w1
         else w1\<lparr>observers := observers w1 @ [\<lparr>callback = cb, observed = elements\<rparr>]\<rparr>)"

text \<open>\<^verbatim>\<open>window.pageYOffset || document.documentElement.scrollTop\<close>\<close>

definition getScrollPosition :: "world \<Rightarrow> real" where
  "getScrollPosition w = (if pageYOffset w \<noteq> 0 then pageYOffset w else scrollTop w)"

definition smoothScrollTo :: "selector \<Rightarrow> int \<Rightarrow> world \<Rightarrow> world" where
  "smoothScrollTo sel offset w =
     (let (el, w1) = DOMUtils_querySelector sel w
      in case el of
           None \<Rightarrow> w1
         | Some p \<Rightarrow>
             (case data_at (doc w1) p of
                None \<Rightarrow> w1
              | Some d \<Rightarrow> w1\<lparr>scrollTo_calls := scrollTo_calls w1 @ [offsetTop d - offset]\<rparr>))"

text \<open>\<^verbatim>\<open>Array.prototype.indexOf\<close>: the first index of the element, or -1.\<close>

fun indexOf :: "'a list \<Rightarrow> 'a \<Rightarrow> int" where
  "indexOf [] x = - 1"
| "indexOf (y # ys) x =
     (if y = x then 0 else (let i = indexOf ys x in if i < 0 then - 1 else i + 1))"

section \<open>Section controllers (sections.js)\<close>

text \<open>
  The three exported classes extend \<^verbatim>\<open>BaseSection\<close>. An object is a record with the
  fields of all of them and the class it was constructed as; the methods that a subclass
  overrides dispatch on the class.
\<close>

datatype section_kind = Base | Hero | Projects | Skills

record controller =
  kind :: section_kind
  sectionId :: string
  element :: "path option"
  config :: "section_config option"
  isInitialized :: bool
  profilePicture :: "path option"
  projectCards :: "path list"
  skillTags :: "path list"

definition BaseSection_new :: "section_kind \<Rightarrow> string \<Rightarrow> world \<Rightarrow> controller \<times> world" where
  "BaseSection_new k sid w =
     (let (el, w1) = DOMUtils_querySelector (IdSel sid) w
      in (\<lparr>kind = k, sectionId = sid, element = el,
           config = getSectionConfig (portfolioConfig w1) sid,
           isInitialized = False,
           profilePicture = None, projectCards = [], skillTags = []\<rparr>, w1))"

definition HeroSection_new :: "world \<Rightarrow> controller \<times> world" where
  "HeroSection_new w =
     (let (s, w1) = BaseSection_new Hero ''hero'' w;
          (pp, w2) = DOMUtils_querySelector (ClassSel ''profile-picture-container'') w1
      in (s\<lparr>profilePicture := pp\<rparr>, w2))"

definition ProjectsSection_new :: "world \<Rightarrow> controller \<times> world" where
  "ProjectsSection_new w =
     (let (s, w1) = BaseSection_new Projects ''projects'' w;
          (cards, w2) = DOMUtils_querySelectorAll (ClassSel ''project-card'') w1
      in (s\<lparr>projectCards := cards\<rparr>, w2))"

definition SkillsSection_new :: "world \<Rightarrow> controller \<times> world" where
  "SkillsSection_new w =
     (let (s, w1) = BaseSection_new Skills ''skills'' w;
          (tags, w2) = DOMUtils_querySelectorAll (ClassSel ''skill-tag'') w1
      in (s\<lparr>skillTags := tags\<rparr>, w2))"

subsection \<open>Listeners\<close>

definition listen :: "path \<Rightarrow> string \<Rightarrow> handler \<Rightarrow> world \<Rightarrow> world" where
  "listen p ev h w = w\<lparr>doc := addEventListener p ev h (doc w)\<rparr>"

text \<open>The body of the \<^verbatim>\<open>forEach\<close> of \<^verbatim>\<open>ProjectsSection.setupEventListeners\<close>.\<close>

definition setupCardListeners :: "nat \<times> path \<Rightarrow> world \<Rightarrow> world" where
  "setupCardListeners ic w =
     (let index = fst ic; cardEl = snd ic;
          w1 = listen cardEl ''mouseenter'' (CardHover cardEl True) w;
          w2 = listen cardEl ''mouseleave'' (CardHover cardEl False) w1
      in case element_querySelector (doc w2) cardEl (ClassSel ''project-link'') of
           None \<Rightarrow> w2
         | Some link \<Rightarrow> listen link ''click'' (ProjectClick index) w2)"

definition setupSkillTag :: "path \<Rightarrow> world \<Rightarrow> world" where
  "setupSkillTag tg w = listen tg ''click'' (SkillClick tg) w"

definition setupEventListeners :: "controller \<Rightarrow> world \<Rightarrow> world" where
  "setupEventListeners s w =
     (case kind s of
        Base \<Rightarrow> w
      | Hero \<Rightarrow>
          (case profilePicture s of
             None \<Rightarrow> w
           | Some p \<Rightarrow> listen p ''click'' (ProfileClick p) w)
      | Projects \<Rightarrow> fold setupCardListeners (enumerate 0 (projectCards s)) w
      | Skills \<Rightarrow> fold setupSkillTag (skillTags s) w)"

subsection \<open>Animations\<close>

text \<open>\<^verbatim>\<open>this.config.animationDelay || 0\<close>\<close>

definition baseDelay :: "controller \<Rightarrow> int" where
  "baseDelay s = (case config s of None \<Rightarrow> 0 | Some c \<Rightarrow> animationDelay c)"

definition BaseSection_setupAnimations :: "controller \<Rightarrow> world \<Rightarrow> world" where
  "BaseSection_setupAnimations s w =
     (if areAnimationsEnabled w
      then observeElements (IdSel (sectionId s)) (SectionFadeIn (baseDelay s)) w
      else w)"

definition setupAnimations :: "controller \<Rightarrow> world \<Rightarrow> world" where
  "setupAnimations s w =
     (let w1 = BaseSection_setupAnimations s w
      in case kind s of
           Base \<Rightarrow> w1
         | Hero \<Rightarrow>
             (if areAnimationsEnabled w1
              then observeElements (ClassSel ''profile-picture-container'') ProfilePulse w1
              else w1)
         | Projects \<Rightarrow>
             (if areAnimationsEnabled w1
              then observeElements (ClassSel ''project-card'') (CardFadeIn (projectCards s)) w1
              else w1)
         | Skills \<Rightarrow>
             (if areAnimationsEnabled w1
              then observeElements (ClassSel ''skill-tag'') (TagFadeIn (skillTags s)) w1
              else w1))"

text \<open>The callbacks handed to \<^verbatim>\<open>observeElements\<close>, run on the element that became visible.\<close>

fun run_callback :: "observer_callback \<Rightarrow> path \<Rightarrow> world \<Rightarrow> world" where
  "run_callback (SectionFadeIn delay) el w = fadeIn (Some el) delay w"
| "run_callback ProfilePulse el w = w\<lparr>timers := snd (setTimeout (PulseUp el) 500 (timers w))\<rparr>"
| "run_callback (CardFadeIn cards) el w = fadeIn (Some el) (indexOf cards el * 100) w"
| "run_callback (TagFadeIn tags) el w = fadeIn (Some el) (indexOf tags el * 50) w"

text \<open>
  The intersection observer of \<^verbatim>\<open>observeElements\<close> reporting that the element \<open>el\<close>
  intersects: the callback runs if the \<open>k\<close>-th observer still observes the element, and
  the element is unobserved.
\<close>

definition intersect :: "nat \<Rightarrow> path \<Rightarrow> world \<Rightarrow> world" where
  "intersect k el w =
     (if k < length (observers w) \<and> el \<in> set (observed (observers w ! k)) then
        (let ob = observers w ! k;
             w1 = run_callback (callback ob) el w
         in w1\<lparr>observers := (observers w1)[k := ob\<lparr>observed := removeAll el (observed ob)\<rparr>]\<rparr>)
      else w)"

subsection \<open>Handlers\<close>

record event =
  target :: path
  defaultPrevented :: bool

definition set_transform :: "path \<Rightarrow> string \<Rightarrow> world \<Rightarrow> world" where
  "set_transform p v w = w\<lparr>doc := update_data p (\<lambda>d. d\<lparr>style_transform := v\<rparr>) (doc w)\<rparr>"

definition handleProfileClick :: "path \<Rightarrow> world \<Rightarrow> world" where
  "handleProfileClick pp w =
     (if areAnimationsEnabled w then
        (let w1 = set_transform pp ''scale(0.95)'' w
         in w1\<lparr>timers := snd (setTimeout (SetTransform pp ''scale(1)'') 150 (timers w1))\<rparr>)
      else w)"

definition handleCardHover :: "path \<Rightarrow> bool \<Rightarrow> world \<Rightarrow> world" where
  "handleCardHover cardEl isHovering w =
     (if \<not> areAnimationsEnabled w then w
      else if isHovering then set_transform cardEl ''translateY(-10px) scale(1.02)'' w
      else set_transform cardEl ''translateY(0) scale(1)'' w)"

text \<open>A number in a template literal: the decimal digits of a natural number.\<close>

definition digit_char :: "nat \<Rightarrow> char" where
  "digit_char k = ''0123456789'' ! (k mod 10)"

fun decimal :: "nat \<Rightarrow> string" where
  "decimal n = (if n < 10 then [digit_char n] else decimal (n div 10) @ [digit_char n])"

declare decimal.simps [simp del]

text \<open>\<^verbatim>\<open>link.getAttribute('href')\<close> of the event target; \<open>None\<close> is \<^verbatim>\<open>null\<close>.\<close>

definition getAttribute_href :: "world \<Rightarrow> path \<Rightarrow> string option" where
  "getAttribute_href w p = (case data_at (doc w) p of None \<Rightarrow> None | Some d \<Rightarrow> href d)"

definition handleProjectClick :: "event \<Rightarrow> nat \<Rightarrow> world \<Rightarrow> event \<times> world" where
  "handleProjectClick ev projectIndex w =
     (let link = target ev;
          h = getAttribute_href w link
      in if h = Some ''#'' then
           (ev\<lparr>defaultPrevented := True\<rparr>,
            w\<lparr>console := console w @
                 [Log (''Projeto '' @ decimal (projectIndex + 1) @ '' clicado - Configure o link real'')]\<rparr>)
         else (ev, w))"

text \<open>Reading \<^verbatim>\<open>el.textContent\<close>: the text of the element and of its descendants.\<close>

fun textContent_of :: "element \<Rightarrow> string" where
  "textContent_of (Element d cs) = textContent d @ concat (map textContent_of cs)"

definition handleSkillClick :: "path \<Rightarrow> world \<Rightarrow> world" where
  "handleSkillClick tg w =
     (let skillName = (case node_at (doc w) tg of None \<Rightarrow> [] | Some e \<Rightarrow> textContent_of e);
          w1 = w\<lparr>console := console w @ [Log (''Habilidade clicada: '' @ skillName)]\<rparr>
      in if areAnimationsEnabled w1 then
           (let w2 = set_transform tg ''scale(0.95)'' w1
            in w2\<lparr>timers := snd (setTimeout (SetTransform tg ''scale(1)'') 150 (timers w2))\<rparr>)
         else w1)"

subsection \<open>HeroSection.updateUserInfo\<close>

text \<open>
  The argument of \<^verbatim>\<open>updateUserInfo\<close>: each field is a string or is omitted (\<open>None\<close>).
  The source tests a field with \<^verbatim>\<open>userInfo.name\<close>, which holds for a string that is
  not empty.
\<close>

record user_info =
  name :: "string option"
  tagline :: "string option"
  summary :: "string option"

definition provided :: "string option \<Rightarrow> bool" where
  "provided v = (case v of None \<Rightarrow> False | Some s \<Rightarrow> s \<noteq> [])"

text \<open>The literal \<^verbatim>\<open>Ol\<close>, a with acute (code unit E1), \<^verbatim>\<open>, eu sou \<close> of the template.\<close>

definition greeting :: string where
  "greeting = ''Ol'' @ [CHR 0xE1] @ '', eu sou ''"

definition write_text :: "path option \<Rightarrow> string \<Rightarrow> world \<Rightarrow> world" where
  "write_text el s w =
     (case el of None \<Rightarrow> w | Some p \<Rightarrow> w\<lparr>doc := set_textContent p s (doc w)\<rparr>)"

definition updateUserInfo :: "user_info \<Rightarrow> world \<Rightarrow> world" where
  "updateUserInfo userInfo w =
     (let (nameElement, w1) = DOMUtils_querySelector (ClassTagSel ''hero-content'' ''h1'') w;
          (taglineElement, w2) = DOMUtils_querySelector (ClassSel ''tagline'') w1;
          (summaryElement, w3) = DOMUtils_querySelector (ClassSel ''summary-text'') w2;
          w4 = (if nameElement \<noteq> None \<and> provided (name userInfo)
                then write_text nameElement (greeting @ the (name userInfo)) w3 else w3);
          w5 = (if taglineElement \<noteq> None \<and> provided (tagline userInfo)
                then write_text taglineElement (the (tagline userInfo)) w4 else w4);
          w6 = (if summaryElement \<noteq> None \<and> provided (summary userInfo)
                then write_text summaryElement (the (summary userInfo)) w5 else w5)
      in w6)"

subsection \<open>ProjectsSection.addProject and SkillsSection.addSkill\<close>

record project_data =
  title :: string
  description :: string
  link :: string

definition createElement :: "string \<Rightarrow> element" where
  "createElement t =
     Element \<lparr>tag = t, elem_id = None, classes = [], href = None, textContent = [],
              style_transform = [], style_opacity = [], style_transition = [],
              offsetTop = 0, listeners = []\<rparr> []"

text \<open>The template literal assigned to \<^verbatim>\<open>projectCard.innerHTML\<close>.\<close>

definition card_markup :: "project_data \<Rightarrow> string" where
  "card_markup projectData =
     [CHR 0x0A] @ ''            <h3>'' @ title projectData @ ''</h3>'' @
     [CHR 0x0A] @ ''            <p class=\"project-description\">'' @ description projectData @ ''</p>'' @
     [CHR 0x0A] @ ''            <a href=\"'' @ link projectData @ ''\" class=\"project-link\">Ver Projeto</a>'' @
     [CHR 0x0A] @ ''        ''"

definition setupProjectCard :: "path \<Rightarrow> world \<Rightarrow> world" where
  "setupProjectCard cardEl w =
     (let w1 = listen cardEl ''mouseenter'' (CardHover cardEl True) w
      in listen cardEl ''mouseleave'' (CardHover cardEl False) w1)"

text \<open>
  \<^verbatim>\<open>addProject\<close> builds the card outside the document, appends it as the last child of
  the grid and hands it to \<^verbatim>\<open>setupProjectCard\<close>; from then on the card is the element
  at the path of the grid extended by the index of its last child.
\<close>

definition addProject :: "project_data \<Rightarrow> world \<Rightarrow> world" where
  "addProject projectData w =
     (let (projectsGrid, w1) = DOMUtils_querySelector (ClassSel ''projects-grid'') w
      in case projectsGrid of
           None \<Rightarrow> w1
         | Some g \<Rightarrow>
             (case node_at (doc w1) g of
                None \<Rightarrow> w1
              | Some grid \<Rightarrow>
                  (let article = createElement ''article'';
                       projectCard = Element ((data article)\<lparr>classes := [''project-card'']\<rparr>)
                                       (parse_html w1 (card_markup projectData));
                       w2 = w1\<lparr>doc := appendChild g projectCard (doc w1)\<rparr>
                   in setupProjectCard (g @ [length (children grid)]) w2)))"

definition addSkill :: "string \<Rightarrow> world \<Rightarrow> world" where
  "addSkill skillName w =
     (let (skillsGrid, w1) = DOMUtils_querySelector (ClassSel ''skills-grid'') w
      in case skillsGrid of
           None \<Rightarrow> w1
         | Some g \<Rightarrow>
             (case node_at (doc w1) g of
                None \<Rightarrow> w1
              | Some grid \<Rightarrow>
                  (let span = createElement ''span'';
                       skillTag = Element ((data span)\<lparr>classes := [''skill-tag''], textContent := skillName\<rparr>) [];
                       w2 = w1\<lparr>doc := appendChild g skillTag (doc w1)\<rparr>
                   in setupSkillTag (g @ [length (children grid)]) w2)))"

subsection \<open>Dispatching an event to the listeners of its target\<close>

fun run_handler :: "handler \<Rightarrow> event \<times> world \<Rightarrow> event \<times> world" where
  "run_handler (ProfileClick pp) (ev, w) = (ev, handleProfileClick pp w)"
| "run_handler (CardHover cardEl b) (ev, w) = (ev, handleCardHover cardEl b w)"
| "run_handler (ProjectClick i) (ev, w) = handleProjectClick ev i w"
| "run_handler (SkillClick tg) (ev, w) = (ev, handleSkillClick tg w)"
| "run_handler (InternalLinkClick lk) (ev, w) =
     (case getAttribute_href w lk of
        None \<Rightarrow> (ev\<lparr>defaultPrevented := True\<rparr>, w)
      | Some h \<Rightarrow>
          (ev\<lparr>defaultPrevented := True\<rparr>,
           smoothScrollTo (IdSel (drop 1 h)) (scroll_offset (portfolioConfig w)) w))"

text \<open>
  The handler of an in-page link calls \<^verbatim>\<open>preventDefault\<close> first; without an \<^verbatim>\<open>href\<close> the
  call of \<^verbatim>\<open>substring\<close> on \<^verbatim>\<open>null\<close> ends it there.

  An event on the element \<open>p\<close>: the listeners registered on \<open>p\<close> for the event type
  run in the order of their registration, on a fresh event whose target is \<open>p\<close>. The
  scripts register no listener for these events on an ancestor of a card or a link.
\<close>

definition dispatch :: "string \<Rightarrow> path \<Rightarrow> world \<Rightarrow> event \<times> world" where
  "dispatch ev p w =
     (case data_at (doc w) p of
        None \<Rightarrow> (\<lparr>target = p, defaultPrevented = False\<rparr>, w)
      | Some d \<Rightarrow>
          fold run_handler (map snd (filter (\<lambda>l. fst l = ev) (listeners d)))
            (\<lparr>target = p, defaultPrevented = False\<rparr>, w))"

subsection \<open>The life cycle\<close>

definition Section_init :: "controller \<Rightarrow> world \<Rightarrow> controller \<times> world" where
  "Section_init s w =
     (if element s = None \<or> isInitialized s then (s, w)
      else (let w1 = setupEventListeners s w;
                w2 = setupAnimations s w1
            in (s\<lparr>isInitialized := True\<rparr>, w2)))"

section \<open>The application controller (main.js)\<close>

record app =
  app_sections :: "string \<rightharpoonup> controller"
  app_isInitialized :: bool

text \<open>
  \<^verbatim>\<open>init\<close> is an \<^verbatim>\<open>async\<close> function: a call runs up to \<^verbatim>\<open>await this.waitForDOM()\<close>
  and returns; the rest of the body is a continuation that the host runs as a microtask
  once the promise of \<^verbatim>\<open>waitForDOM\<close> is resolved. The run-time state is the world, the
  application object and the queue of continuations that are ready to run.
\<close>

datatype task = InitResume

record runtime =
  env :: world
  app :: app
  microtasks :: "task list"

definition PortfolioApp_new :: app where
  "PortfolioApp_new = \<lparr>app_sections = Map.empty, app_isInitialized = False\<rparr>"

text \<open>
  \<^verbatim>\<open>waitForDOM\<close> followed by \<^verbatim>\<open>await\<close>: while the document is loading, \<^verbatim>\<open>resolve\<close> is
  registered for \<^verbatim>\<open>DOMContentLoaded\<close>; otherwise the promise is resolved at once and the
  continuation is queued.
\<close>

definition waitForDOM :: "runtime \<Rightarrow> runtime" where
  "waitForDOM r =
     (if readyState (env r) = Loading then
        r\<lparr>env := (env r)\<lparr>document_listeners :=
              document_listeners (env r) @ [(''DOMContentLoaded'', ResolveReady)]\<rparr>\<rparr>
      else r\<lparr>microtasks := microtasks r @ [InitResume]\<rparr>)"

definition PortfolioApp_init :: "runtime \<Rightarrow> runtime" where
  "PortfolioApp_init r = (if app_isInitialized (app r) then r else waitForDOM r)"

text \<open>
  The body of the \<^verbatim>\<open>forEach\<close> of \<^verbatim>\<open>initializeSections\<close>. Nothing that the constructors
  and \<^verbatim>\<open>init\<close> call throws in this model of the host, so the \<^verbatim>\<open>catch\<close> is not reached.
\<close>

definition initializeSection :: "string \<times> (world \<Rightarrow> controller \<times> world) \<Rightarrow> runtime \<Rightarrow> runtime" where
  "initializeSection nc r =
     (let (s, w1) = (snd nc) (env r);
          (s', w2) = Section_init s w1
      in r\<lparr>env := w2, app := (app r)\<lparr>app_sections := (app_sections (app r))(fst nc \<mapsto> s')\<rparr>\<rparr>)"

definition initializeSections :: "runtime \<Rightarrow> runtime" where
  "initializeSections r =
     fold initializeSection
       [(''hero'', HeroSection_new), (''projects'', ProjectsSection_new), (''skills'', SkillsSection_new)] r"

definition setupGlobalEventListeners :: "world \<Rightarrow> world" where
  "setupGlobalEventListeners w =
     w\<lparr>window_listeners := window_listeners w @ [(''resize'', ResizeDebounced), (''scroll'', ScrollThrottled)],
       media_listeners := media_listeners w @ [(''change'', MotionPreferenceChange)]\<rparr>"

definition setupInternalLink :: "path \<Rightarrow> world \<Rightarrow> world" where
  "setupInternalLink lk w = listen lk ''click'' (InternalLinkClick lk) w"

definition setupScrollBehavior :: "world \<Rightarrow> world" where
  "setupScrollBehavior w =
     (if scroll_smooth (portfolioConfig w) then
        (let (internalLinks, w1) = DOMUtils_querySelectorAll (TagHrefPrefixSel ''a'' ''#'') w
         in fold setupInternalLink internalLinks w1)
      else w)"

text \<open>The rest of \<^verbatim>\<open>init\<close> after the \<^verbatim>\<open>await\<close>.\<close>

definition init_resume :: "runtime \<Rightarrow> runtime" where
  "init_resume r =
     (let r1 = initializeSections r;
          w2 = setupGlobalEventListeners (env r1);
          w3 = setupScrollBehavior w2;
          w4 = w3\<lparr>console := console w3 @
                 [Log (''Portf'' @ [CHR 0xF3] @ ''lio inicializado com sucesso!'')]\<rparr>
      in r1\<lparr>env := w4, app := (app r1)\<lparr>app_isInitialized := True\<rparr>\<rparr>)"

fun run_task :: "task \<Rightarrow> runtime \<Rightarrow> runtime" where
  "run_task InitResume r = init_resume r"

text \<open>
  The microtask checkpoint: the queued continuations run in order. No continuation of
  this program queues another one.
\<close>

definition run_microtasks :: "runtime \<Rightarrow> runtime" where
  "run_microtasks r = fold run_task (microtasks r) (r\<lparr>microtasks := []\<rparr>)"

text \<open>
  The document finishes loading: every \<^verbatim>\<open>DOMContentLoaded\<close> listener runs, each followed
  by a microtask checkpoint.
\<close>

fun run_document_listener :: "global_handler \<Rightarrow> runtime \<Rightarrow> runtime" where
  "run_document_listener ResolveReady r = run_microtasks (r\<lparr>microtasks := microtasks r @ [InitResume]\<rparr>)"
| "run_document_listener h r = r"

definition DOMContentLoaded :: "runtime \<Rightarrow> runtime" where
  "DOMContentLoaded r =
     (let r1 = r\<lparr>env := (env r)\<lparr>readyState := Interactive\<rparr>\<rparr>
      in fold run_document_listener
           (map snd (filter (\<lambda>l. fst l = ''DOMContentLoaded'') (document_listeners (env r1)))) r1)"

definition handleScroll :: "world \<Rightarrow> world" where
  "handleScroll w =
     (let scrollPosition = getScrollPosition w;
          (header, w1) = DOMUtils_querySelector (TagSel ''header'') w
      in if header \<noteq> None then
           (if scrollPosition > 100 then DOMUtils_addClass header ''scrolled'' w1
            else DOMUtils_removeClass header ''scrolled'' w1)
         else w1)"

definition handleMotionPreferenceChange :: "bool \<Rightarrow> world \<Rightarrow> world" where
  "handleMotionPreferenceChange prefersReducedMotion w =
     updateAnimationConfig
       \<lparr>patch_enabled = Some (\<not> prefersReducedMotion), patch_duration = None, patch_easing = None\<rparr> w"

subsection \<open>debounce\<close>













section \<open>A sample page\<close>

text \<open>
  A page with the elements that the scripts look for: a header with an in-page link, the
  hero section with the profile picture, the heading, the tagline and the summary, the
  projects section with a grid of one card whose link is the placeholder \<^verbatim>\<open>#\<close>, and the
  skills section with a grid of one tag.
\<close>

definition elem :: "string \<Rightarrow> string option \<Rightarrow> string list \<Rightarrow> string option \<Rightarrow> string \<Rightarrow> element list \<Rightarrow> element" where
  "elem t i cls h txt cs =
     Element \<lparr>tag = t, elem_id = i, classes = cls, href = h, textContent = txt,
              style_transform = [], style_opacity = [], style_transition = [],
              offsetTop = 0, listeners = []\<rparr> cs"

definition sample_page :: element where
  "sample_page =
     elem ''html'' None [] None [] [
       elem ''header'' None [] None [] [
         elem ''a'' None [] (Some ''#projects'') ''Projetos'' []],
       elem ''section'' (Some ''hero'') [] None [] [
         elem ''div'' None [''profile-picture-container''] None [] [],
         elem ''div'' None [''hero-content''] None [] [
           elem ''h1'' None [] None ''Nome'' [],
           elem ''p'' None [''tagline''] None ''Desenvolvedor'' [],
           elem ''p'' None [''summary-text''] None ''Resumo'' []]],
       elem ''section'' (Some ''projects'') [] None [] [
         elem ''div'' None [''projects-grid''] None [] [
           elem ''article'' None [''project-card''] None [] [
             elem ''h3'' None [] None ''Projeto'' [],
             elem ''a'' None [''project-link''] (Some ''#'') ''Ver Projeto'' []]]],
       elem ''section'' (Some ''skills'') [] None [] [
         elem ''div'' None [''skills-grid''] None [] [
           elem ''span'' None [''skill-tag''] None ''HTML'' []]]]"

definition sample_project :: project_data where
  "sample_project = \<lparr>title = ''T'', description = ''D'', link = ''#''\<rparr>"

text \<open>What the HTML parser of a browser makes of the markup of the sample project.\<close>

definition sample_parse :: "string \<Rightarrow> element list" where
  "sample_parse m =
     (if m = card_markup sample_project then
        [elem ''h3'' None [] None ''T'' [],
         elem ''p'' None [''project-description''] None ''D'' [],
         elem ''a'' None [''project-link''] (Some ''#'') ''Ver Projeto'' []]
      else [])"

definition sample_world :: world where
  "sample_world =
     \<lparr>doc = sample_page,
      ident_ok = (\<lambda>s. s \<noteq> []),
      parse_html = sample_parse,
      readyState = Interactive,
      reduced_motion = False,
      pageYOffset = 0,
      scrollTop = 0,
      portfolioConfig = PortfolioConfig_new,
      console = [],
      window_listeners = [],
      document_listeners = [],
      media_listeners = [],
      scrollTo_calls = [],
      observers = [],
      timers = \<lparr>clock = 0, next_handle = 1, pending = []\<rparr>\<rparr>"

definition sample_runtime :: runtime where
  "sample_runtime = \<lparr>env = sample_world, app = PortfolioApp_new, microtasks = []\<rparr>"

definition empty_world :: world where
  "empty_world = sample_world\<lparr>doc := elem ''html'' None [] None [] []\<rparr>"



section \<open>Notions used in the statements\<close>

text \<open>
  The three elements that \<^verbatim>\<open>updateUserInfo\<close> looks up, the text of an element of the
  document, and two elements being apart: neither is the other nor lies inside it.
\<close>

definition nameElement :: "world \<Rightarrow> path option" where
  "nameElement w = fst (DOMUtils_querySelector (ClassTagSel ''hero-content'' ''h1'') w)"

definition taglineElement :: "world \<Rightarrow> path option" where
  "taglineElement w = fst (DOMUtils_querySelector (ClassSel ''tagline'') w)"

definition summaryElement :: "world \<Rightarrow> path option" where
  "summaryElement w = fst (DOMUtils_querySelector (ClassSel ''summary-text'') w)"

definition text_at :: "world \<Rightarrow> path \<Rightarrow> string option" where
  "text_at w p = map_option textContent (data_at (doc w) p)"

definition apart :: "path option \<Rightarrow> path option \<Rightarrow> bool" where
  "apart a b = (case a of None \<Rightarrow> True
                | Some p \<Rightarrow> (case b of None \<Rightarrow> True | Some q \<Rightarrow> \<not> prefix p q \<and> \<not> prefix q p))"

text \<open>One of the three guarded assignments of \<^verbatim>\<open>updateUserInfo\<close>.\<close>

definition guarded_write :: "path option \<Rightarrow> bool \<Rightarrow> string \<Rightarrow> world \<Rightarrow> world" where
  "guarded_write el c s w = (if el \<noteq> None \<and> c then write_text el s w else w)"

definition name_only :: user_info where
  "name_only = \<lparr>name = Some ''X'', tagline = None, summary = None\<rparr>"

text \<open>The projects section of the sample page, constructed and initialised, and a project added.\<close>

definition projects_ready :: "controller \<times> world" where
  "projects_ready = Section_init (fst (ProjectsSection_new sample_world)) (snd (ProjectsSection_new sample_world))"

definition projects_added :: world where
  "projects_added = addProject sample_project (snd projects_ready)"

text \<open>Two cards, and the sample page after one call of \<^verbatim>\<open>init\<close> and after two calls in a row.\<close>

definition two_cards :: "path list" where
  "two_cards = [[2, 0, 0], [2, 0, 1]]"

definition once_initialised :: runtime where
  "once_initialised = run_microtasks (PortfolioApp_init sample_runtime)"

definition twice_initialised :: runtime where
  "twice_initialised = run_microtasks (PortfolioApp_init (PortfolioApp_init sample_runtime))"

section \<open>Properties\<close>

subsection \<open>The document tree and the queries\<close>

lemma node_at_modify_same: "node_at (modify p f t) p = map_option f (node_at t p)"
proof (induction p arbitrary: t)
  case Nil
  then show ?case by simp
next
  case (Cons i p)
  then show ?case by (cases t) simp
qed

lemma data_at_modify_other:
  "\<not> prefix p q \<Longrightarrow> data_at (modify p f t) q = data_at t q"
proof (induction p arbitrary: q t)
  case Nil
  then show ?case by simp
next
  case (Cons i p)
  obtain d cs where t: "t = Element d cs" by (cases t)
  show ?case
  proof (cases q)
    case Nil
    then show ?thesis by (simp add: t data_at_def)
  next
    case (Cons j q')
    show ?thesis
    proof (cases "j = i")
      case True
      with Cons Cons.prems have "\<not> prefix p q'" by simp
      then have "data_at (modify p f (cs ! i)) q' = data_at (cs ! i) q'" by (rule Cons.IH)
      then show ?thesis using True Cons by (simp add: t data_at_def)
    next
      case False
      then show ?thesis using Cons by (simp add: t data_at_def)
    qed
  qed
qed

lemma query_valid:
  "DOMUtils_querySelector (ClassSel c) w = (find (node_matches (doc w) (ClassSel c)) (paths (doc w)), w)"
  "DOMUtils_querySelector (TagSel c) w = (find (node_matches (doc w) (TagSel c)) (paths (doc w)), w)"
  "DOMUtils_querySelector (ClassTagSel c t) w = (find (node_matches (doc w) (ClassTagSel c t)) (paths (doc w)), w)"
  by (simp_all add: DOMUtils_querySelector_def document_querySelector_def selector_ok_def)

lemma query_found_exists:
  assumes "fst (DOMUtils_querySelector sel w) = Some p"
  shows "data_at (doc w) p \<noteq> None"
proof -
  from assms have "find (node_matches (doc w) sel) (paths (doc w)) = Some p"
    by (auto simp: DOMUtils_querySelector_def document_querySelector_def split: if_splits)
  then have "node_matches (doc w) sel p" by (auto simp: find_Some_iff)
  then show ?thesis
    by (cases sel) (auto simp: has_class_def has_tag_def split: option.splits)
qed

lemma absent_query:
  assumes "\<not> selector_ok w (IdSel sid) \<or> filter (node_matches (doc w) (IdSel sid)) (paths (doc w)) = []"
  shows "fst (DOMUtils_querySelector (IdSel sid) w) = None"
  using assms
  by (auto simp: DOMUtils_querySelector_def document_querySelector_def find_None_iff
                 filter_empty_conv split: sum.splits)

lemma query_doc [simp]: "doc (snd (DOMUtils_querySelector sel w)) = doc w"
  by (simp add: DOMUtils_querySelector_def split: sum.splits)

lemma queryAll_doc [simp]: "doc (snd (DOMUtils_querySelectorAll sel w)) = doc w"
  by (simp add: DOMUtils_querySelectorAll_def split: sum.splits)

subsection \<open>Configuration\<close>

text \<open>
  C3. For every stored value of \<^verbatim>\<open>animations.enabled\<close> and every state of the
  reduced-motion media query, \<^verbatim>\<open>areAnimationsEnabled()\<close> is the stored value and not
  the query's \<^verbatim>\<open>matches\<close>; when the query matches it is false whatever is stored.
\<close>

theorem areAnimationsEnabled_spec:
  "areAnimationsEnabled w = (anim_enabled (animations (portfolioConfig w)) \<and> \<not> reduced_motion w)
   \<and> areAnimationsEnabled (w\<lparr>reduced_motion := True\<rparr>) = False"
  by (simp add: areAnimationsEnabled_def)

subsection \<open>Section controllers\<close>

text \<open>
  C5. For every section id that matches no element of the document, be it that no
  element has the id or that the id makes a malformed selector, the constructor of a
  section controller returns a controller (the failure of a malformed selector is caught
  in \<^verbatim>\<open>DOMUtils.querySelector\<close>) whose element is null; \<^verbatim>\<open>init()\<close> on it returns with the
  controller and the world as they were, so the flag is still false and no listener or
  observer was set up. The constructor itself leaves the document and the observers as
  they were. This holds for \<^verbatim>\<open>BaseSection\<close> with any id and for the three subclasses with
  their own ids.
\<close>

theorem absent_section_not_initialized:
  assumes "(s, w1) \<in> {BaseSection_new k sid w, HeroSection_new w, ProjectsSection_new w, SkillsSection_new w}"
    and "\<not> selector_ok w (IdSel (sectionId s))
         \<or> filter (node_matches (doc w) (IdSel (sectionId s))) (paths (doc w)) = []"
  shows "element s = None \<and> \<not> isInitialized s \<and> Section_init s w1 = (s, w1)
         \<and> doc w1 = doc w \<and> observers w1 = observers w"
proof -
  have ob: "observers (snd (DOMUtils_querySelector sel v)) = observers v" for sel v
    by (simp add: DOMUtils_querySelector_def split: sum.splits)
  have obA: "observers (snd (DOMUtils_querySelectorAll sel v)) = observers v" for sel v
    by (simp add: DOMUtils_querySelectorAll_def split: sum.splits)
  have base': "sectionId (fst (BaseSection_new k' i w)) = i
      \<and> isInitialized (fst (BaseSection_new k' i w)) = False
      \<and> element (fst (BaseSection_new k' i w)) = fst (DOMUtils_querySelector (IdSel i) w)
      \<and> doc (snd (BaseSection_new k' i w)) = doc w
      \<and> observers (snd (BaseSection_new k' i w)) = observers w" for k' i
    by (simp add: BaseSection_new_def split_beta ob)
  have sub: "fst (HeroSection_new w) = (fst (BaseSection_new Hero ''hero'' w))\<lparr>profilePicture := fst (DOMUtils_querySelector (ClassSel ''profile-picture-container'') (snd (BaseSection_new Hero ''hero'' w)))\<rparr>"
    "snd (HeroSection_new w) = snd (DOMUtils_querySelector (ClassSel ''profile-picture-container'') (snd (BaseSection_new Hero ''hero'' w)))"
    "fst (ProjectsSection_new w) = (fst (BaseSection_new Projects ''projects'' w))\<lparr>projectCards := fst (DOMUtils_querySelectorAll (ClassSel ''project-card'') (snd (BaseSection_new Projects ''projects'' w)))\<rparr>"
    "snd (ProjectsSection_new w) = snd (DOMUtils_querySelectorAll (ClassSel ''project-card'') (snd (BaseSection_new Projects ''projects'' w)))"
    "fst (SkillsSection_new w) = (fst (BaseSection_new Skills ''skills'' w))\<lparr>skillTags := fst (DOMUtils_querySelectorAll (ClassSel ''skill-tag'') (snd (BaseSection_new Skills ''skills'' w)))\<rparr>"
    "snd (SkillsSection_new w) = snd (DOMUtils_querySelectorAll (ClassSel ''skill-tag'') (snd (BaseSection_new Skills ''skills'' w)))"
    by (simp_all add: HeroSection_new_def ProjectsSection_new_def SkillsSection_new_def split_beta)
  from assms(1) consider
      (base) "s = fst (BaseSection_new k sid w)" "w1 = snd (BaseSection_new k sid w)"
    | (hero) "s = fst (HeroSection_new w)" "w1 = snd (HeroSection_new w)"
    | (projects) "s = fst (ProjectsSection_new w)" "w1 = snd (ProjectsSection_new w)"
    | (skills) "s = fst (SkillsSection_new w)" "w1 = snd (SkillsSection_new w)"
    by (auto simp: prod_eq_iff)
  then have facts: "isInitialized s = False
      \<and> element s = fst (DOMUtils_querySelector (IdSel (sectionId s)) w)
      \<and> doc w1 = doc w \<and> observers w1 = observers w"
  proof cases
    case base
    then show ?thesis by (simp add: base')
  next
    case hero
    then show ?thesis by (simp add: sub base' ob)
  next
    case projects
    then show ?thesis by (simp add: sub base' obA)
  next
    case skills
    then show ?thesis by (simp add: sub base' obA)
  qed
  then have "element s = None" using absent_query[OF assms(2)] by simp
  then show ?thesis using facts by (simp add: Section_init_def)
qed

theorem absent_section_not_initialized_witness:
  "(fst (HeroSection_new empty_world), snd (HeroSection_new empty_world))
      \<in> {BaseSection_new Hero ''hero'' empty_world, HeroSection_new empty_world,
          ProjectsSection_new empty_world, SkillsSection_new empty_world}
   \<and> filter (node_matches (doc empty_world) (IdSel (sectionId (fst (HeroSection_new empty_world)))))
         (paths (doc empty_world)) = []
   \<and> element (fst (HeroSection_new empty_world)) = None
   \<and> \<not> isInitialized (fst (HeroSection_new empty_world))
   \<and> Section_init (fst (HeroSection_new empty_world)) (snd (HeroSection_new empty_world))
       = (fst (HeroSection_new empty_world), snd (HeroSection_new empty_world))
   \<and> \<not> selector_ok sample_world (IdSel (sectionId (fst (BaseSection_new Base [] sample_world))))
   \<and> element (fst (BaseSection_new Base [] sample_world)) = None
   \<and> \<not> isInitialized (fst (BaseSection_new Base [] sample_world))"
proof -
  have m: "(fst (HeroSection_new empty_world), snd (HeroSection_new empty_world))
      \<in> {BaseSection_new Hero ''hero'' empty_world, HeroSection_new empty_world,
          ProjectsSection_new empty_world, SkillsSection_new empty_world}"
    by simp
  have i: "sectionId (fst (HeroSection_new empty_world)) = ''hero''"
    by (simp add: HeroSection_new_def BaseSection_new_def split_beta)
  have a: "filter (node_matches (doc empty_world) (IdSel (sectionId (fst (HeroSection_new empty_world)))))
         (paths (doc empty_world)) = []"
    unfolding i by (simp add: empty_world_def elem_def data_at_def)
  have m': "(fst (BaseSection_new Base [] sample_world), snd (BaseSection_new Base [] sample_world))
      \<in> {BaseSection_new Base [] sample_world, HeroSection_new sample_world,
          ProjectsSection_new sample_world, SkillsSection_new sample_world}"
    by simp
  have n: "\<not> selector_ok sample_world (IdSel (sectionId (fst (BaseSection_new Base [] sample_world))))"
    by (simp add: BaseSection_new_def split_beta selector_ok_def sample_world_def)
  from absent_section_not_initialized[OF m disjI2[OF a]]
    absent_section_not_initialized[OF m' disjI1[OF n]] m a n
  show ?thesis by simp
qed

text \<open>
  One call of \<^verbatim>\<open>handleProjectClick\<close>: the default action is prevented, and the message
  logged, exactly when the \<^verbatim>\<open>href\<close> attribute of the event target is \<^verbatim>\<open>#\<close>; otherwise
  the event and the world are left as they were. So a click on a link that carries the
  click listener of \<^verbatim>\<open>setupEventListeners\<close> and no other is prevented exactly when the
  \<^verbatim>\<open>href\<close> of the link is \<^verbatim>\<open>#\<close>.
\<close>

lemma handleProjectClick_href_test:
  "defaultPrevented (fst (handleProjectClick (ev\<lparr>defaultPrevented := False\<rparr>) i w))
     = (getAttribute_href w (target ev) = Some ''#'')
   \<and> snd (handleProjectClick ev i w)
     = (if getAttribute_href w (target ev) = Some ''#''
        then w\<lparr>console := console w @
               [Log (''Projeto '' @ decimal (i + 1) @ '' clicado - Configure o link real'')]\<rparr>
        else w)
   \<and> fst (handleProjectClick ev i w)
     = (if getAttribute_href w (target ev) = Some ''#'' then ev\<lparr>defaultPrevented := True\<rparr> else ev)"
  by (simp add: handleProjectClick_def Let_def)

lemma dispatch_wired_link:
  assumes "data_at (doc w) p = Some d"
    and "filter (\<lambda>l. fst l = ''click'') (listeners d) = [(''click'', ProjectClick i)]"
  shows "defaultPrevented (fst (dispatch ''click'' p w)) = (href d = Some ''#'')"
  using assms
  by (simp add: dispatch_def handleProjectClick_def getAttribute_href_def Let_def)

text \<open>
  C7. A click on a project link is to be prevented, and logged, if and only if the
  \<^verbatim>\<open>href\<close> of the link is exactly \<^verbatim>\<open>#\<close>. On the sample page after \<^verbatim>\<open>addProject\<close> with the
  link \<^verbatim>\<open>#\<close> there are two project links with that \<^verbatim>\<open>href\<close>. The click on the link that
  was there at \<^verbatim>\<open>init\<close> is prevented and logged. The click on the link of the added card
  is not prevented and nothing is logged: \<^verbatim>\<open>setupProjectCard\<close> has not registered
  \<^verbatim>\<open>handleProjectClick\<close> on it.
\<close>

theorem added_placeholder_link_click_not_prevented:
  "has_class (doc projects_added) [2, 0, 1] ''project-card''
   \<and> has_class (doc projects_added) [2, 0, 1, 2] ''project-link''
   \<and> getAttribute_href projects_added [2, 0, 1, 2] = Some ''#''
   \<and> \<not> defaultPrevented (fst (dispatch ''click'' [2, 0, 1, 2] projects_added))
   \<and> console (snd (dispatch ''click'' [2, 0, 1, 2] projects_added)) = console projects_added
   \<and> has_class (doc projects_added) [2, 0, 0, 1] ''project-link''
   \<and> getAttribute_href projects_added [2, 0, 0, 1] = Some ''#''
   \<and> defaultPrevented (fst (dispatch ''click'' [2, 0, 0, 1] projects_added))
   \<and> console (snd (dispatch ''click'' [2, 0, 0, 1] projects_added))
        = console projects_added @ [Log ''Projeto 1 clicado - Configure o link real'']"
  by code_simp

subsection \<open>The application controller\<close>

text \<open>
  C8. With a header in the document, after \<^verbatim>\<open>handleScroll\<close> the header has the class
  \<^verbatim>\<open>scrolled\<close> if and only if the scroll position is greater than 100; the witness
  is the sample page at the positions 101 and 100.
\<close>

theorem handleScroll_scrolled_class:
  assumes "fst (DOMUtils_querySelector (TagSel ''header'') w) = Some h"
  shows "has_class (doc (handleScroll w)) h ''scrolled'' \<longleftrightarrow> 100 < getScrollPosition w"
proof -
  from query_found_exists[OF assms] obtain d where d: "data_at (doc w) h = Some d" by auto
  then obtain e where e: "node_at (doc w) h = Some e" by (auto simp: data_at_def)
  from assms have q: "DOMUtils_querySelector (TagSel ''header'') w = (Some h, w)"
    by (simp add: query_valid)
  show ?thesis
  proof (cases "100 < getScrollPosition w")
    case True
    then have "handleScroll w = DOMUtils_addClass (Some h) ''scrolled'' w"
      by (simp add: handleScroll_def q)
    then show ?thesis using True e
      by (simp add: DOMUtils_addClass_def has_class_def data_at_def update_data_def node_at_modify_same)
  next
    case False
    then have "handleScroll w = DOMUtils_removeClass (Some h) ''scrolled'' w"
      by (simp add: handleScroll_def q)
    then show ?thesis using False e
      by (simp add: DOMUtils_removeClass_def has_class_def data_at_def update_data_def node_at_modify_same)
  qed
qed

theorem handleScroll_scrolled_class_witness:
  "fst (DOMUtils_querySelector (TagSel ''header'') (sample_world\<lparr>pageYOffset := 101\<rparr>)) = Some [0]
   \<and> has_class (doc (handleScroll (sample_world\<lparr>pageYOffset := 101\<rparr>))) [0] ''scrolled''
   \<and> fst (DOMUtils_querySelector (TagSel ''header'') (sample_world\<lparr>pageYOffset := 100\<rparr>)) = Some [0]
   \<and> \<not> has_class (doc (handleScroll (sample_world\<lparr>pageYOffset := 100\<rparr>))) [0] ''scrolled''"
proof -
  have q: "fst (DOMUtils_querySelector (TagSel ''header'') (sample_world\<lparr>pageYOffset := y\<rparr>)) = Some [0]" for y
    by (simp add: query_valid sample_world_def sample_page_def elem_def has_tag_def data_at_def)
  have p1: "getScrollPosition (sample_world\<lparr>pageYOffset := 101\<rparr>) = 101"
    and p0: "getScrollPosition (sample_world\<lparr>pageYOffset := 100\<rparr>) = 100"
    by (simp_all add: getScrollPosition_def)
  from handleScroll_scrolled_class[OF q[of 101]] handleScroll_scrolled_class[OF q[of 100]] q p1 p0
  show ?thesis by simp
qed

subsection \<open>debounce\<close>








subsection \<open>HeroSection.updateUserInfo\<close>

lemma updateUserInfo_steps:
  "updateUserInfo u w =
     guarded_write (summaryElement w) (provided (summary u)) (the (summary u))
       (guarded_write (taglineElement w) (provided (tagline u)) (the (tagline u))
          (guarded_write (nameElement w) (provided (name u)) (greeting @ the (name u)) w))"
  by (simp add: updateUserInfo_def query_valid nameElement_def taglineElement_def
        summaryElement_def guarded_write_def Let_def)

lemma guarded_write_other:
  assumes "\<And>p. el = Some p \<Longrightarrow> c \<Longrightarrow> \<not> prefix p q"
  shows "data_at (doc (guarded_write el c s w)) q = data_at (doc w) q"
  using assms
  by (cases el) (auto simp: guarded_write_def write_text_def set_textContent_def data_at_modify_other)

lemma guarded_write_same:
  assumes "data_at (doc w) p \<noteq> None"
  shows "text_at (guarded_write (Some p) c s w) p = (if c then Some s else text_at w p)"
  using assms
  by (auto simp: guarded_write_def write_text_def set_textContent_def text_at_def data_at_def
        node_at_modify_same)

lemma nameElement_exists: "nameElement w = Some p \<Longrightarrow> data_at (doc w) p \<noteq> None"
  unfolding nameElement_def by (rule query_found_exists)

lemma taglineElement_exists: "taglineElement w = Some p \<Longrightarrow> data_at (doc w) p \<noteq> None"
  unfolding taglineElement_def by (rule query_found_exists)

lemma summaryElement_exists: "summaryElement w = Some p \<Longrightarrow> data_at (doc w) p \<noteq> None"
  unfolding summaryElement_def by (rule query_found_exists)

lemma name_text_after:
  assumes n: "nameElement w = Some p"
    and "apart (nameElement w) (taglineElement w)" and "apart (nameElement w) (summaryElement w)"
  shows "text_at (updateUserInfo u w) p
           = (if provided (name u) then Some (greeting @ the (name u)) else text_at w p)"
proof -
  let ?w4 = "guarded_write (nameElement w) (provided (name u)) (greeting @ the (name u)) w"
  let ?w5 = "guarded_write (taglineElement w) (provided (tagline u)) (the (tagline u)) ?w4"
  let ?w6 = "guarded_write (summaryElement w) (provided (summary u)) (the (summary u)) ?w5"
  have "data_at (doc ?w6) p = data_at (doc ?w5) p"
    using assms(3) by (intro guarded_write_other) (simp add: apart_def n)
  also have "\<dots> = data_at (doc ?w4) p"
    using assms(2) by (intro guarded_write_other) (simp add: apart_def n)
  finally have "text_at ?w6 p = text_at ?w4 p" by (simp add: text_at_def)
  also have "\<dots> = (if provided (name u) then Some (greeting @ the (name u)) else text_at w p)"
    unfolding n by (rule guarded_write_same) (rule nameElement_exists[OF n])
  finally show ?thesis by (simp add: updateUserInfo_steps)
qed

lemma tagline_text_after:
  assumes t: "taglineElement w = Some p"
    and "apart (nameElement w) (taglineElement w)" and "apart (taglineElement w) (summaryElement w)"
  shows "text_at (updateUserInfo u w) p
           = (if provided (tagline u) then Some (the (tagline u)) else text_at w p)"
proof -
  let ?w4 = "guarded_write (nameElement w) (provided (name u)) (greeting @ the (name u)) w"
  let ?w5 = "guarded_write (taglineElement w) (provided (tagline u)) (the (tagline u)) ?w4"
  let ?w6 = "guarded_write (summaryElement w) (provided (summary u)) (the (summary u)) ?w5"
  have w4: "data_at (doc ?w4) p = data_at (doc w) p"
    using assms(2) by (intro guarded_write_other) (auto simp: apart_def t)
  have "data_at (doc ?w6) p = data_at (doc ?w5) p"
    using assms(3) by (intro guarded_write_other) (simp add: apart_def t)
  then have "text_at ?w6 p = text_at ?w5 p" by (simp add: text_at_def)
  also have "\<dots> = (if provided (tagline u) then Some (the (tagline u)) else text_at ?w4 p)"
    unfolding t by (rule guarded_write_same) (simp add: w4 taglineElement_exists[OF t])
  also have "text_at ?w4 p = text_at w p" by (simp add: text_at_def w4)
  finally show ?thesis by (simp add: updateUserInfo_steps)
qed

lemma summary_text_after:
  assumes s: "summaryElement w = Some p"
    and "apart (nameElement w) (summaryElement w)" and "apart (taglineElement w) (summaryElement w)"
  shows "text_at (updateUserInfo u w) p
           = (if provided (summary u) then Some (the (summary u)) else text_at w p)"
proof -
  let ?w4 = "guarded_write (nameElement w) (provided (name u)) (greeting @ the (name u)) w"
  let ?w5 = "guarded_write (taglineElement w) (provided (tagline u)) (the (tagline u)) ?w4"
  let ?w6 = "guarded_write (summaryElement w) (provided (summary u)) (the (summary u)) ?w5"
  have w4: "data_at (doc ?w4) p = data_at (doc w) p"
    using assms(2) by (intro guarded_write_other) (auto simp: apart_def s)
  have w5: "data_at (doc ?w5) p = data_at (doc ?w4) p"
    using assms(3) by (intro guarded_write_other) (auto simp: apart_def s)
  have "text_at ?w6 p = (if provided (summary u) then Some (the (summary u)) else text_at ?w5 p)"
    unfolding s by (rule guarded_write_same) (simp add: w4 w5 summaryElement_exists[OF s])
  also have "text_at ?w5 p = text_at w p" by (simp add: text_at_def w4 w5)
  finally show ?thesis by (simp add: updateUserInfo_steps)
qed

lemma untouched_after:
  assumes "\<And>p. nameElement w = Some p \<Longrightarrow> provided (name u) \<Longrightarrow> \<not> prefix p q"
    and "\<And>p. taglineElement w = Some p \<Longrightarrow> provided (tagline u) \<Longrightarrow> \<not> prefix p q"
    and "\<And>p. summaryElement w = Some p \<Longrightarrow> provided (summary u) \<Longrightarrow> \<not> prefix p q"
  shows "data_at (doc (updateUserInfo u w)) q = data_at (doc w) q"
  unfolding updateUserInfo_steps
  using assms by (simp add: guarded_write_other)

lemma sample_targets:
  "nameElement sample_world = Some [1, 1, 0]"
  "taglineElement sample_world = Some [1, 1, 1]"
  "summaryElement sample_world = Some [1, 1, 2]"
  by code_simp+

text \<open>
  C6. \<^verbatim>\<open>updateUserInfo(u)\<close> on a page whose heading, tagline and summary elements are
  apart from each other (those that exist): the text of each of the three is the new
  text if its field is provided and is its previous text otherwise; and every element of
  the document that is not a target with a provided field, nor inside one, keeps all its
  data. So a target is modified only if it exists and its field is provided, and
  \<^verbatim>\<open>updateUserInfo({name: "X"})\<close> changes the heading only (the witness).
\<close>

theorem updateUserInfo_frame:
  assumes "apart (nameElement w) (taglineElement w)"
    and "apart (nameElement w) (summaryElement w)"
    and "apart (taglineElement w) (summaryElement w)"
  shows "(\<forall>p. nameElement w = Some p \<longrightarrow>
            text_at (updateUserInfo u w) p
              = (if provided (name u) then Some (greeting @ the (name u)) else text_at w p))
       \<and> (\<forall>p. taglineElement w = Some p \<longrightarrow>
            text_at (updateUserInfo u w) p
              = (if provided (tagline u) then Some (the (tagline u)) else text_at w p))
       \<and> (\<forall>p. summaryElement w = Some p \<longrightarrow>
            text_at (updateUserInfo u w) p
              = (if provided (summary u) then Some (the (summary u)) else text_at w p))
       \<and> (\<forall>q. (\<forall>p. nameElement w = Some p \<and> provided (name u) \<longrightarrow> \<not> prefix p q)
             \<and> (\<forall>p. taglineElement w = Some p \<and> provided (tagline u) \<longrightarrow> \<not> prefix p q)
             \<and> (\<forall>p. summaryElement w = Some p \<and> provided (summary u) \<longrightarrow> \<not> prefix p q)
             \<longrightarrow> data_at (doc (updateUserInfo u w)) q = data_at (doc w) q)"
  using assms
  by (intro conjI allI impI)
     (simp_all add: name_text_after tagline_text_after summary_text_after untouched_after)

theorem updateUserInfo_frame_witness:
  "apart (nameElement sample_world) (taglineElement sample_world)
   \<and> apart (nameElement sample_world) (summaryElement sample_world)
   \<and> apart (taglineElement sample_world) (summaryElement sample_world)
   \<and> text_at (updateUserInfo name_only sample_world) [1, 1, 0] = Some (greeting @ ''X'')
   \<and> text_at (updateUserInfo name_only sample_world) [1, 1, 1] = Some ''Desenvolvedor''
   \<and> text_at (updateUserInfo name_only sample_world) [1, 1, 2] = Some ''Resumo''
   \<and> data_at (doc (updateUserInfo name_only sample_world)) [2, 0, 0] = data_at (doc sample_world) [2, 0, 0]"
proof -
  have a: "apart (nameElement sample_world) (taglineElement sample_world)"
    "apart (nameElement sample_world) (summaryElement sample_world)"
    "apart (taglineElement sample_world) (summaryElement sample_world)"
    by (simp_all add: sample_targets apart_def)
  have t: "text_at sample_world [1, 1, 1] = Some ''Desenvolvedor''"
    "text_at sample_world [1, 1, 2] = Some ''Resumo''"
    by (simp_all add: text_at_def data_at_def sample_world_def sample_page_def elem_def)
  have p: "provided (name name_only)" "\<not> provided (tagline name_only)" "\<not> provided (summary name_only)"
    "the (name name_only) = ''X''"
    by (simp_all add: name_only_def provided_def)
  from updateUserInfo_frame[OF a, of name_only] a t show ?thesis
    by (simp add: sample_targets p)
qed




subsection \<open>The stagger of the fade-in\<close>

lemma indexOf_nth: "distinct xs \<Longrightarrow> N < length xs \<Longrightarrow> indexOf xs (xs ! N) = int N"
proof (induction xs arbitrary: N)
  case Nil
  then show ?case by simp
next
  case (Cons y ys)
  show ?case
  proof (cases N)
    case 0
    then show ?thesis by simp
  next
    case (Suc m)
    with Cons.prems have m: "m < length ys" "ys ! m \<noteq> y" "distinct ys" by auto
    then have "indexOf ys (ys ! m) = int m" by (intro Cons.IH)
    with m Suc show ?thesis by (simp add: Let_def)
  qed
qed

lemma observeElements_enabled:
  "areAnimationsEnabled (observeElements sel cb w) = areAnimationsEnabled w"
  by (simp add: observeElements_def DOMUtils_querySelectorAll_def areAnimationsEnabled_def
        split_beta Let_def split: sum.splits)

lemma sample_kinds:
  "kind (fst (ProjectsSection_new sample_world)) = Projects"
  "kind (fst (SkillsSection_new sample_world)) = Skills"
  by (simp_all add: ProjectsSection_new_def SkillsSection_new_def BaseSection_new_def split_beta)

lemma projects_ready_eval:
  "baseDelay (fst projects_ready) = 200"
  "projectCards (fst projects_ready) ! 0 = [2, 0, 0]"
  "callback (observers (snd projects_ready) ! 1) = CardFadeIn (projectCards (fst projects_ready))"
  "clock (timers (snd projects_ready)) = 0"
  "pending (timers (intersect 1 [2, 0, 0] (snd projects_ready))) = [(1, 0, FadeInStart [2, 0, 0])]"
  by code_simp+

text \<open>
  C2, as the code has it. For the projects and the skills section and every index \<open>N\<close>,
  the fade-in of the element at index \<open>N\<close> of the section's list (\<^verbatim>\<open>projectCards\<close>,
  \<^verbatim>\<open>skillTags\<close>) is scheduled with the delay \<open>N\<close> times the step, 100 ms for a project
  card and 50 ms for a skill tag. The base delay of the section is the delay of the
  fade-in of the root element of the section, which \<^verbatim>\<open>BaseSection.setupAnimations\<close>
  observes on its own; it is not added to the delay of a card or a tag.
\<close>

theorem stagger_delay_is_index_times_step:
  assumes "distinct els" and "N < length els"
    and "areAnimationsEnabled w" and "kind ps = Projects" and "kind ss = Skills"
  shows "timers (run_callback (CardFadeIn els) (els ! N) v)
           = snd (setTimeout (FadeInStart (els ! N)) (int N * 100) (timers v))
       \<and> timers (run_callback (TagFadeIn els) (els ! N) v)
           = snd (setTimeout (FadeInStart (els ! N)) (int N * 50) (timers v))
       \<and> timers (run_callback (SectionFadeIn d) el v)
           = snd (setTimeout (FadeInStart el) d (timers v))
       \<and> setupAnimations ps w
           = observeElements (ClassSel ''project-card'') (CardFadeIn (projectCards ps))
               (observeElements (IdSel (sectionId ps)) (SectionFadeIn (baseDelay ps)) w)
       \<and> setupAnimations ss w
           = observeElements (ClassSel ''skill-tag'') (TagFadeIn (skillTags ss))
               (observeElements (IdSel (sectionId ss)) (SectionFadeIn (baseDelay ss)) w)"
  using assms
  by (simp add: indexOf_nth fadeIn_def setupAnimations_def BaseSection_setupAnimations_def
        Let_def observeElements_enabled)

theorem stagger_delay_is_index_times_step_witness:
  "distinct two_cards \<and> 1 < length two_cards \<and> areAnimationsEnabled sample_world
   \<and> kind (fst (ProjectsSection_new sample_world)) = Projects
   \<and> kind (fst (SkillsSection_new sample_world)) = Skills
   \<and> pending (timers (run_callback (CardFadeIn two_cards) (two_cards ! 1) sample_world))
        = [(1, 100, FadeInStart [2, 0, 1])]
   \<and> pending (timers (run_callback (TagFadeIn two_cards) (two_cards ! 1) sample_world))
        = [(1, 50, FadeInStart [2, 0, 1])]"
proof -
  have h: "distinct two_cards" "1 < length two_cards" "areAnimationsEnabled sample_world"
    by (simp_all add: two_cards_def areAnimationsEnabled_def sample_world_def PortfolioConfig_new_def)
  note th = stagger_delay_is_index_times_step[OF h sample_kinds, where v = sample_world]
  have c: "timers (run_callback (CardFadeIn two_cards) (two_cards ! 1) sample_world)
             = snd (setTimeout (FadeInStart (two_cards ! 1)) (int 1 * 100) (timers sample_world))"
    by (rule th[THEN conjunct1])
  have g: "timers (run_callback (TagFadeIn two_cards) (two_cards ! 1) sample_world)
             = snd (setTimeout (FadeInStart (two_cards ! 1)) (int 1 * 50) (timers sample_world))"
    by (rule th[THEN conjunct2, THEN conjunct1])
  have c': "pending (timers (run_callback (CardFadeIn two_cards) (two_cards ! 1) sample_world))
              = [(1, 100, FadeInStart [2, 0, 1])]"
    unfolding c by (simp add: setTimeout_def two_cards_def sample_world_def)
  have g': "pending (timers (run_callback (TagFadeIn two_cards) (two_cards ! 1) sample_world))
              = [(1, 50, FadeInStart [2, 0, 1])]"
    unfolding g by (simp add: setTimeout_def two_cards_def sample_world_def)
  from h sample_kinds c' g' show ?thesis by blast
qed

text \<open>
  C2 as stated fails: on the sample page the base delay of the projects section is 200 ms
  and the fade-in of the card at index 0 is scheduled with the delay 0, not 200 + 0.
\<close>

theorem stagger_delay_base_counterexample:
  "baseDelay (fst projects_ready) = 200
   \<and> projectCards (fst projects_ready) ! 0 = [2, 0, 0]
   \<and> callback (observers (snd projects_ready) ! 1) = CardFadeIn (projectCards (fst projects_ready))
   \<and> pending (timers (intersect 1 [2, 0, 0] (snd projects_ready)))
        = [(1, clock (timers (snd projects_ready)) + 0, FadeInStart [2, 0, 0])]
   \<and> pending (timers (intersect 1 [2, 0, 0] (snd projects_ready)))
        \<noteq> [(1, clock (timers (snd projects_ready)) + nat (baseDelay (fst projects_ready) + 0 * 100),
             FadeInStart [2, 0, 0])]"
  using projects_ready_eval by simp

subsection \<open>Calling init twice\<close>

lemma Section_init_idempotent:
  assumes "element s \<noteq> None"
  shows "Section_init (fst (Section_init s w)) (snd (Section_init s w)) = Section_init s w"
  using assms by (simp add: Section_init_def Let_def)

lemma Section_init_sets_flag:
  assumes "element s \<noteq> None"
  shows "isInitialized (fst (Section_init s w))"
  using assms by (auto simp: Section_init_def Let_def)

lemma init_resume_sets_flag: "app_isInitialized (app (init_resume r))"
  by (simp add: init_resume_def Let_def)

lemma PortfolioApp_init_after_resume: "PortfolioApp_init (init_resume r) = init_resume r"
  by (simp add: PortfolioApp_init_def init_resume_sets_flag)

lemma PortfolioApp_init_awaited_idempotent:
  assumes "\<not> app_isInitialized (app r)" and "readyState (env r) \<noteq> Loading" and "microtasks r = []"
  shows "PortfolioApp_init (run_microtasks (PortfolioApp_init r)) = run_microtasks (PortfolioApp_init r)"
proof -
  have "run_microtasks (PortfolioApp_init r) = init_resume (r\<lparr>microtasks := []\<rparr>)"
    using assms by (simp add: PortfolioApp_init_def waitForDOM_def run_microtasks_def)
  then show ?thesis by (simp add: PortfolioApp_init_after_resume)
qed

lemma fold_keeps:
  assumes "\<And>x v. P (f x v) = P v"
  shows "P (fold f xs w) = P w"
  using assms by (induction xs arbitrary: w) simp_all

lemma query_wl [simp]:
  "window_listeners (snd (DOMUtils_querySelector sel w)) = window_listeners w"
  "window_listeners (snd (DOMUtils_querySelectorAll sel w)) = window_listeners w"
  by (simp_all add: DOMUtils_querySelector_def DOMUtils_querySelectorAll_def split: sum.splits)

lemma listen_wl [simp]: "window_listeners (listen p ev h w) = window_listeners w"
  by (simp add: listen_def)

lemma observeElements_wl [simp]:
  "window_listeners (observeElements sel cb w) = window_listeners w"
  by (simp add: observeElements_def split_beta Let_def)

lemma setupCardListeners_wl [simp]:
  "window_listeners (setupCardListeners ic w) = window_listeners w"
  by (simp add: setupCardListeners_def Let_def split: option.splits)

lemma setupEventListeners_wl [simp]:
  "window_listeners (setupEventListeners s w) = window_listeners w"
  by (cases "kind s")
     (simp_all add: setupEventListeners_def setupSkillTag_def
        fold_keeps[where P = window_listeners] split: option.splits)

lemma setupAnimations_wl [simp]:
  "window_listeners (setupAnimations s w) = window_listeners w"
  by (cases "kind s")
     (simp_all add: setupAnimations_def BaseSection_setupAnimations_def Let_def)

lemma Section_init_wl [simp]:
  "window_listeners (snd (Section_init s w)) = window_listeners w"
  by (simp add: Section_init_def Let_def)

lemma constructors_wl [simp]:
  "window_listeners (snd (BaseSection_new k sid w)) = window_listeners w"
  "window_listeners (snd (HeroSection_new w)) = window_listeners w"
  "window_listeners (snd (ProjectsSection_new w)) = window_listeners w"
  "window_listeners (snd (SkillsSection_new w)) = window_listeners w"
  by (simp_all add: BaseSection_new_def HeroSection_new_def ProjectsSection_new_def
        SkillsSection_new_def split_beta)

lemma initializeSections_wl [simp]:
  "window_listeners (env (initializeSections r)) = window_listeners (env r)"
  by (simp add: initializeSections_def initializeSection_def split_beta)

lemma setupScrollBehavior_wl [simp]:
  "window_listeners (setupScrollBehavior w) = window_listeners w"
  by (simp add: setupScrollBehavior_def setupInternalLink_def split_beta
        fold_keeps[where P = window_listeners])

lemma init_resume_window_listeners:
  "window_listeners (env (init_resume r))
     = window_listeners (env r) @ [(''resize'', ResizeDebounced), (''scroll'', ScrollThrottled)]"
  by (simp add: init_resume_def Let_def setupGlobalEventListeners_def)

lemma init_twice_unawaited:
  assumes "\<not> app_isInitialized (app r)" and "readyState (env r) \<noteq> Loading" and "microtasks r = []"
  shows "run_microtasks (PortfolioApp_init (PortfolioApp_init r))
           = init_resume (init_resume (r\<lparr>microtasks := []\<rparr>))"
    and "run_microtasks (PortfolioApp_init r) = init_resume (r\<lparr>microtasks := []\<rparr>)"
  using assms by (simp_all add: PortfolioApp_init_def waitForDOM_def run_microtasks_def)

lemma sample_runtime_fresh:
  "\<not> app_isInitialized (app sample_runtime)" "readyState (env sample_runtime) \<noteq> Loading"
  "microtasks sample_runtime = []" "window_listeners (env sample_runtime) = []"
  by (simp_all add: sample_runtime_def PortfolioApp_new_def sample_world_def)

lemma sample_observers:
  "length (observers (env once_initialised)) = 6"
  "length (observers (env twice_initialised)) = 12"
  by code_simp+

text \<open>
  C4. A second \<^verbatim>\<open>init()\<close> on a section controller with its element present changes
  nothing (\<open>Section_init_idempotent\<close>), and so does a second \<^verbatim>\<open>init()\<close> on the
  application once the first has run to its end (\<open>PortfolioApp_init_awaited_idempotent\<close>).
  But the application sets its flag only after the \<^verbatim>\<open>await\<close>: two calls in a row, the
  second made before the continuation of the first has run, both pass the guard, and
  the setup runs twice. On the sample page the window then has each of its listeners
  twice and there are twelve observers instead of six.
\<close>

theorem init_twice_unawaited_sets_up_twice:
  "microtasks (PortfolioApp_init sample_runtime) = [InitResume]
   \<and> microtasks (PortfolioApp_init (PortfolioApp_init sample_runtime)) = [InitResume, InitResume]
   \<and> window_listeners (env once_initialised)
        = [(''resize'', ResizeDebounced), (''scroll'', ScrollThrottled)]
   \<and> window_listeners (env twice_initialised)
        = [(''resize'', ResizeDebounced), (''scroll'', ScrollThrottled),
           (''resize'', ResizeDebounced), (''scroll'', ScrollThrottled)]
   \<and> length (observers (env once_initialised)) = 6
   \<and> length (observers (env twice_initialised)) = 12"
proof -
  have m: "microtasks (PortfolioApp_init sample_runtime) = [InitResume]"
    "microtasks (PortfolioApp_init (PortfolioApp_init sample_runtime)) = [InitResume, InitResume]"
    using sample_runtime_fresh by (simp_all add: PortfolioApp_init_def waitForDOM_def)
  have w1: "window_listeners (env once_initialised)
        = [(''resize'', ResizeDebounced), (''scroll'', ScrollThrottled)]"
    unfolding once_initialised_def init_twice_unawaited(2)[OF sample_runtime_fresh(1-3)]
    using sample_runtime_fresh(4) by (simp add: init_resume_window_listeners)
  have w2: "window_listeners (env twice_initialised)
        = [(''resize'', ResizeDebounced), (''scroll'', ScrollThrottled),
           (''resize'', ResizeDebounced), (''scroll'', ScrollThrottled)]"
    unfolding twice_initialised_def init_twice_unawaited(1)[OF sample_runtime_fresh(1-3)]
    using sample_runtime_fresh(4) by (simp add: init_resume_window_listeners)
  from m w1 w2 sample_observers show ?thesis by blast
qed

subsection \<open>ProjectsSection.addProject\<close>

text \<open>
  C1. On the initialised projects section of the sample page, \<^verbatim>\<open>addProject\<close> with the
  link \<^verbatim>\<open>#\<close> appends one card, whose link has the given \<^verbatim>\<open>href\<close> and which has the two
  hover listeners of the card that was there before. But \<^verbatim>\<open>setupProjectCard\<close> registers no
  click listener on the link of the new card, while \<^verbatim>\<open>setupEventListeners\<close> registered
  one on the link of the old card: a click on the old link is prevented, a click on the
  new link with the same \<^verbatim>\<open>href\<close> is not.
\<close>

theorem addProject_link_click_not_wired:
  "fst (DOMUtils_querySelectorAll (ClassSel ''project-card'') (snd projects_ready)) = [[2, 0, 0]]
   \<and> fst (DOMUtils_querySelectorAll (ClassSel ''project-card'') projects_added) = [[2, 0, 0], [2, 0, 1]]
   \<and> element_querySelector (doc projects_added) [2, 0, 1] (ClassSel ''project-link'') = Some [2, 0, 1, 2]
   \<and> getAttribute_href projects_added [2, 0, 1, 2] = Some (link sample_project)
   \<and> map_option listeners (data_at (doc projects_added) [2, 0, 0])
        = Some [(''mouseenter'', CardHover [2, 0, 0] True), (''mouseleave'', CardHover [2, 0, 0] False)]
   \<and> map_option listeners (data_at (doc projects_added) [2, 0, 1])
        = Some [(''mouseenter'', CardHover [2, 0, 1] True), (''mouseleave'', CardHover [2, 0, 1] False)]
   \<and> map_option listeners (data_at (doc projects_added) [2, 0, 0, 1]) = Some [(''click'', ProjectClick 0)]
   \<and> map_option listeners (data_at (doc projects_added) [2, 0, 1, 2]) = Some []
   \<and> getAttribute_href projects_added [2, 0, 0, 1] = Some ''#''
   \<and> defaultPrevented (fst (dispatch ''click'' [2, 0, 0, 1] projects_added))
   \<and> \<not> defaultPrevented (fst (dispatch ''click'' [2, 0, 1, 2] projects_added))"
  by code_simp

end
